theory Spec2Isabelle
  imports Complex_Main "HOL-Library.Word"
begin

section \<open>Exceptions, call outcomes and pointers\<close>

text \<open>
  The header \<^verbatim>\<open>libgnucash/app-utils/gnc-option.hpp\<close> throws three standard exceptions:
  \<^verbatim>\<open>std::logic_error\<close> (the UI mixin), \<^verbatim>\<open>std::invalid_argument\<close> (constructors and
  \<^verbatim>\<open>set_value\<close>) and, through \<^verbatim>\<open>std::vector::at\<close>, \<^verbatim>\<open>std::out_of_range\<close>. The first two
  carry the message the code gives them; the message of the third is the library's.
  The specification calls the \<^verbatim>\<open>logic_error\<close> of the UI mixin \<open>InvalidOperation\<close>, the
  \<^verbatim>\<open>invalid_argument\<close> of a constructor \<open>InvalidArgument\<close>, the \<^verbatim>\<open>invalid_argument\<close> of a
  \<^verbatim>\<open>set_value\<close> \<open>ValidationFailed\<close>, and \<^verbatim>\<open>out_of_range\<close> \<open>OutOfRange\<close>.
\<close>

datatype exn = logic_error string | invalid_argument string | out_of_range

text \<open>
  A call of a mutating member function either returns or throws; in both cases the object
  is left in some state, which the outcome records. A constructor that throws produces no
  object, so constructors return \<open>exn + 'cell\<close>; so do the reading member functions that
  can throw.
\<close>

datatype 's outcome = Returned (state_of: 's) | Threw exn (state_of: 's)

text \<open>A call made only when the previous one returned (an exception propagates).\<close>

fun then_call :: "'s outcome \<Rightarrow> ('s \<Rightarrow> 's outcome) \<Rightarrow> 's outcome" where
  "then_call (Returned s) f = f s"
| "then_call (Threw e s) f = Threw e s"

datatype pointer = nullptr | addr nat

type_synonym GncOptionUIItem_ptr = pointer
type_synonym QofInstance_ptr = pointer
type_synonym QofQuery_ptr = pointer

section \<open>Classifier and UI mixin\<close>

datatype GncOptionUIType =
    INTERNAL
  | BOOLEAN
  | STRING
  | TEXT
  | CURRENCY
  | COMMODITY
  | MULTICHOICE
  | DATE
  | ACCOUNT_LIST
  | ACCOUNT_SEL
  | LIST
  | NUMBER_RANGE
  | COLOR
  | FONT
  | BUDGET
  | PIXMAP
  | RADIOBUTTON
  | DATE_FORMAT
  | OWNER
  | CUSTOMER
  | VENDOR
  | EMPLOYEE
  | INVOICE
  | TAX_TABLE
  | QUERY

record OptionClassifier =
  m_section :: string
  m_name :: string
  m_sort_tag :: string
  m_doc_string :: string

record OptionUIItem =
  m_ui_item :: GncOptionUIItem_ptr
  m_ui_type :: GncOptionUIType

text \<open>\<^verbatim>\<open>OptionUIItem(GncOptionUIType ui_type) : m_ui_item{nullptr}, m_ui_type{ui_type} {}\<close>\<close>

definition OptionUIItem_ctor :: "GncOptionUIType \<Rightarrow> OptionUIItem" where
  "OptionUIItem_ctor ui_type = \<lparr>m_ui_item = nullptr, m_ui_type = ui_type\<rparr>"

definition get_ui_type :: "OptionUIItem \<Rightarrow> GncOptionUIType" where
  "get_ui_type u = m_ui_type u"

definition get_ui_item :: "OptionUIItem \<Rightarrow> GncOptionUIItem_ptr" where
  "get_ui_item u = m_ui_item u"

definition clear_ui_item :: "OptionUIItem \<Rightarrow> OptionUIItem" where
  "clear_ui_item u = u\<lparr>m_ui_item := nullptr\<rparr>"

definition set_ui_item :: "GncOptionUIItem_ptr \<Rightarrow> OptionUIItem \<Rightarrow> OptionUIItem outcome" where
  "set_ui_item ui_item u =
     (if m_ui_type u = INTERNAL
      then Threw (logic_error ''INTERNAL option, setting the UI item forbidden.'') u
      else Returned (u\<lparr>m_ui_item := ui_item\<rparr>))"

definition make_internal :: "OptionUIItem \<Rightarrow> OptionUIItem outcome" where
  "make_internal u =
     (if m_ui_item u \<noteq> nullptr
      then Threw (logic_error ''Option has a UI Element, can't be INTERNAL.'') u
      else Returned (u\<lparr>m_ui_type := INTERNAL\<rparr>))"

text \<open>
  The calls that change a UI binding, and the state a binding is in after a sequence of
  them made on a freshly constructed mixin (a call that throws leaves the state it found).
\<close>

datatype ui_call = Call_set_ui_item GncOptionUIItem_ptr | Call_clear_ui_item | Call_make_internal

fun ui_step :: "OptionUIItem \<Rightarrow> ui_call \<Rightarrow> OptionUIItem" where
  "ui_step u (Call_set_ui_item p) = state_of (set_ui_item p u)"
| "ui_step u Call_clear_ui_item = clear_ui_item u"
| "ui_step u Call_make_internal = state_of (make_internal u)"

definition ui_run :: "GncOptionUIType \<Rightarrow> ui_call list \<Rightarrow> OptionUIItem" where
  "ui_run ui_type calls = foldl ui_step (OptionUIItem_ctor ui_type) calls"

section \<open>Typed cells\<close>

text \<open>
  Every cell class derives from \<^verbatim>\<open>OptionClassifier\<close> and \<^verbatim>\<open>OptionUIItem\<close>; the two base
  subobjects are the first two fields of each record. The classes name their members alike
  (\<^verbatim>\<open>m_value\<close>, \<^verbatim>\<open>m_default_value\<close>), so the fields carry the kind of the cell in front.
  The constructors take \<^verbatim>\<open>const char*\<close> for the four classifier strings; they are strings here.
  No arithmetic is done on a stored number anywhere in the header, so \<^verbatim>\<open>int\<close>, \<^verbatim>\<open>int64_t\<close> and
  \<^verbatim>\<open>time64\<close> values are integers (no operation can leave the machine range) and the range
  cell is stated over any type with the two comparisons it uses.
\<close>

subsection \<open>\<^verbatim>\<open>GncOptionValue<ValueType>\<close>\<close>

record 'a GncOptionValue =
  plain_classifier :: OptionClassifier
  plain_ui :: OptionUIItem
  plain_m_value :: 'a
  plain_m_default_value :: 'a

definition GncOptionValue_ctor ::
  "string \<Rightarrow> string \<Rightarrow> string \<Rightarrow> string \<Rightarrow> 'a \<Rightarrow> GncOptionUIType \<Rightarrow> 'a GncOptionValue" where
  "GncOptionValue_ctor section name key doc_string value ui_type =
     \<lparr>plain_classifier =
        \<lparr>m_section = section, m_name = name, m_sort_tag = key, m_doc_string = doc_string\<rparr>,
      plain_ui = OptionUIItem_ctor ui_type,
      plain_m_value = value,
      plain_m_default_value = value\<rparr>"

definition GncOptionValue_get_value :: "'a GncOptionValue \<Rightarrow> 'a" where
  "GncOptionValue_get_value this = plain_m_value this"

definition GncOptionValue_get_default_value :: "'a GncOptionValue \<Rightarrow> 'a" where
  "GncOptionValue_get_default_value this = plain_m_default_value this"

definition GncOptionValue_set_value :: "'a \<Rightarrow> 'a GncOptionValue \<Rightarrow> 'a GncOptionValue" where
  "GncOptionValue_set_value new_value this = this\<lparr>plain_m_value := new_value\<rparr>"

subsection \<open>\<^verbatim>\<open>GncOptionValidatedValue<ValueType>\<close>\<close>

text \<open>
  The validator is a \<^verbatim>\<open>std::function<bool(ValueType)>\<close>; it is taken to hold a callable that
  returns and whose answer depends on its argument only. \<^verbatim>\<open>m_validation_data\<close> is left
  uninitialised by the constructor with a \<^verbatim>\<open>ui_type\<close> (\<open>None\<close>) and is read nowhere. The
  second constructor (with \<^verbatim>\<open>val_data\<close>) names no initialiser for the \<^verbatim>\<open>OptionUIItem\<close> base,
  which has no default constructor, so it cannot be instantiated and is not modelled.
\<close>

record 'a GncOptionValidatedValue =
  validated_classifier :: OptionClassifier
  validated_ui :: OptionUIItem
  validated_m_value :: 'a
  validated_m_default_value :: 'a
  validated_m_validator :: "'a \<Rightarrow> bool"
  validated_m_validation_data :: "'a option"

definition GncOptionValidatedValue_validate :: "'a \<Rightarrow> 'a GncOptionValidatedValue \<Rightarrow> bool" where
  "GncOptionValidatedValue_validate value this = validated_m_validator this value"

definition GncOptionValidatedValue_ctor ::
  "string \<Rightarrow> string \<Rightarrow> string \<Rightarrow> string \<Rightarrow> 'a \<Rightarrow> ('a \<Rightarrow> bool) \<Rightarrow> GncOptionUIType
     \<Rightarrow> exn + 'a GncOptionValidatedValue" where
  "GncOptionValidatedValue_ctor section name key doc_string value validator ui_type =
     (let this =
        \<lparr>validated_classifier =
           \<lparr>m_section = section, m_name = name, m_sort_tag = key, m_doc_string = doc_string\<rparr>,
         validated_ui = OptionUIItem_ctor ui_type,
         validated_m_value = value,
         validated_m_default_value = value,
         validated_m_validator = validator,
         validated_m_validation_data = None\<rparr>
      in if \<not> GncOptionValidatedValue_validate value this
         then Inl (invalid_argument ''Attempt to create GncValidatedOption with bad value.'')
         else Inr this)"

definition GncOptionValidatedValue_get_value :: "'a GncOptionValidatedValue \<Rightarrow> 'a" where
  "GncOptionValidatedValue_get_value this = validated_m_value this"

definition GncOptionValidatedValue_get_default_value :: "'a GncOptionValidatedValue \<Rightarrow> 'a" where
  "GncOptionValidatedValue_get_default_value this = validated_m_default_value this"

definition GncOptionValidatedValue_set_value ::
  "'a \<Rightarrow> 'a GncOptionValidatedValue \<Rightarrow> 'a GncOptionValidatedValue outcome" where
  "GncOptionValidatedValue_set_value value this =
     (if GncOptionValidatedValue_validate value this
      then Returned (this\<lparr>validated_m_value := value\<rparr>)
      else Threw (invalid_argument ''Validation failed, value not set.'') this)"

subsection \<open>\<^verbatim>\<open>GncOptionRangeValue<ValueType>\<close>\<close>

record 'a GncOptionRangeValue =
  range_classifier :: OptionClassifier
  range_ui :: OptionUIItem
  range_m_value :: 'a
  range_m_default_value :: 'a
  range_m_min :: 'a
  range_m_max :: 'a
  range_m_step :: 'a

definition GncOptionRangeValue_ctor ::
  "string \<Rightarrow> string \<Rightarrow> string \<Rightarrow> string \<Rightarrow> 'a::ord \<Rightarrow> 'a \<Rightarrow> 'a \<Rightarrow> 'a \<Rightarrow> 'a GncOptionRangeValue" where
  "GncOptionRangeValue_ctor section name key doc_string value minv maxv step =
     \<lparr>range_classifier =
        \<lparr>m_section = section, m_name = name, m_sort_tag = key, m_doc_string = doc_string\<rparr>,
      range_ui = OptionUIItem_ctor NUMBER_RANGE,
      range_m_value = (if value \<ge> minv \<and> value \<le> maxv then value else minv),
      range_m_default_value = (if value \<ge> minv \<and> value \<le> maxv then value else minv),
      range_m_min = minv,
      range_m_max = maxv,
      range_m_step = step\<rparr>"

definition GncOptionRangeValue_get_value :: "'a GncOptionRangeValue \<Rightarrow> 'a" where
  "GncOptionRangeValue_get_value this = range_m_value this"

definition GncOptionRangeValue_get_default_value :: "'a GncOptionRangeValue \<Rightarrow> 'a" where
  "GncOptionRangeValue_get_default_value this = range_m_default_value this"

definition GncOptionRangeValue_validate :: "'a::ord \<Rightarrow> 'a GncOptionRangeValue \<Rightarrow> bool" where
  "GncOptionRangeValue_validate value this = (value \<ge> range_m_min this \<and> value \<le> range_m_max this)"

definition GncOptionRangeValue_set_value ::
  "'a::ord \<Rightarrow> 'a GncOptionRangeValue \<Rightarrow> 'a GncOptionRangeValue outcome" where
  "GncOptionRangeValue_set_value value this =
     (if GncOptionRangeValue_validate value this
      then Returned (this\<lparr>range_m_value := value\<rparr>)
      else Threw (invalid_argument ''Validation failed, value not set.'') this)"

subsection \<open>\<^verbatim>\<open>GncOptionMultichoiceValue\<close>\<close>

text \<open>
  An entry is a tuple of three strings (key, display name, description) and the choices
  are a vector of entries. The selected and the default entry are stored as \<^verbatim>\<open>std::size_t\<close>
  indices, 64-bit words here; \<^verbatim>\<open>std::numeric_limits<std::size_t>::max()\<close> is the word of all
  ones.
\<close>

type_synonym GncMultiChoiceOptionEntry = "string \<times> string \<times> string"
type_synonym GncMultiChoiceOptionChoices = "GncMultiChoiceOptionEntry list"
type_synonym size_t = "64 word"

definition size_t_max :: size_t where
  "size_t_max = - 1"

record GncOptionMultichoiceValue =
  multichoice_classifier :: OptionClassifier
  multichoice_ui :: OptionUIItem
  multichoice_m_value :: size_t
  multichoice_m_default_value :: size_t
  m_choices :: GncMultiChoiceOptionChoices

text \<open>
  \<^verbatim>\<open>std::find_if\<close>, as the distance of the iterator it returns from \<^verbatim>\<open>begin()\<close>: the position
  of the first element the predicate accepts, the length of the vector (\<^verbatim>\<open>end()\<close>) when it
  accepts none.
\<close>

fun find_if :: "('a \<Rightarrow> bool) \<Rightarrow> 'a list \<Rightarrow> nat" where
  "find_if p [] = 0"
| "find_if p (x # xs) = (if p x then 0 else Suc (find_if p xs))"

text \<open>\<^verbatim>\<open>std::vector::at\<close>: the element, or \<^verbatim>\<open>std::out_of_range\<close> when \<^verbatim>\<open>n >= size()\<close>.\<close>

definition vector_at :: "'a list \<Rightarrow> size_t \<Rightarrow> exn + 'a" where
  "vector_at xs n = (if unat n < length xs then Inr (xs ! unat n) else Inl out_of_range)"

definition GncOptionMultichoiceValue_ctor ::
  "string \<Rightarrow> string \<Rightarrow> string \<Rightarrow> string \<Rightarrow> GncMultiChoiceOptionChoices \<Rightarrow> GncOptionUIType
     \<Rightarrow> GncOptionMultichoiceValue" where
  "GncOptionMultichoiceValue_ctor section name key doc_string choices ui_type =
     \<lparr>multichoice_classifier =
        \<lparr>m_section = section, m_name = name, m_sort_tag = key, m_doc_string = doc_string\<rparr>,
      multichoice_ui = OptionUIItem_ctor ui_type,
      multichoice_m_value = 0,
      multichoice_m_default_value = 0,
      m_choices = choices\<rparr>"

definition find_key :: "string \<Rightarrow> GncOptionMultichoiceValue \<Rightarrow> size_t" where
  "find_key key this =
     (let iter = find_if (\<lambda>choice. fst choice = key) (m_choices this)
      in if iter \<noteq> length (m_choices this) then of_nat iter else size_t_max)"

definition GncOptionMultichoiceValue_get_value :: "GncOptionMultichoiceValue \<Rightarrow> exn + string" where
  "GncOptionMultichoiceValue_get_value this =
     (case vector_at (m_choices this) (multichoice_m_value this) of
        Inl e \<Rightarrow> Inl e
      | Inr choice \<Rightarrow> Inr (fst choice))"

definition GncOptionMultichoiceValue_get_default_value ::
  "GncOptionMultichoiceValue \<Rightarrow> exn + string" where
  "GncOptionMultichoiceValue_get_default_value this =
     (case vector_at (m_choices this) (multichoice_m_default_value this) of
        Inl e \<Rightarrow> Inl e
      | Inr choice \<Rightarrow> Inr (fst choice))"

definition GncOptionMultichoiceValue_validate :: "string \<Rightarrow> GncOptionMultichoiceValue \<Rightarrow> bool" where
  "GncOptionMultichoiceValue_validate value this =
     (let index = find_key value this in index \<noteq> size_t_max)"

definition GncOptionMultichoiceValue_set_value ::
  "string \<Rightarrow> GncOptionMultichoiceValue \<Rightarrow> GncOptionMultichoiceValue outcome" where
  "GncOptionMultichoiceValue_set_value value this =
     (let index = find_key value this
      in if index \<noteq> size_t_max
         then Returned (this\<lparr>multichoice_m_value := index\<rparr>)
         else Threw (invalid_argument ''Value not a valid choice.'') this)"

definition num_permissible_values :: "GncOptionMultichoiceValue \<Rightarrow> size_t" where
  "num_permissible_values this = of_nat (length (m_choices this))"

definition permissible_value_index :: "string \<Rightarrow> GncOptionMultichoiceValue \<Rightarrow> size_t" where
  "permissible_value_index key this = find_key key this"

definition permissible_value :: "size_t \<Rightarrow> GncOptionMultichoiceValue \<Rightarrow> exn + string" where
  "permissible_value index this =
     (case vector_at (m_choices this) index of
        Inl e \<Rightarrow> Inl e
      | Inr choice \<Rightarrow> Inr (fst choice))"

text \<open>
  The calls that change a multichoice cell, and the cell after a sequence of them made on a
  freshly constructed one.
\<close>

datatype multichoice_call =
    Call_set_value string
  | Call_ui ui_call

fun multichoice_step :: "GncOptionMultichoiceValue \<Rightarrow> multichoice_call \<Rightarrow> GncOptionMultichoiceValue" where
  "multichoice_step this (Call_set_value key) = state_of (GncOptionMultichoiceValue_set_value key this)"
| "multichoice_step this (Call_ui c) = this\<lparr>multichoice_ui := ui_step (multichoice_ui this) c\<rparr>"

subsection \<open>\<^verbatim>\<open>GncOptionDateValue\<close>\<close>

text \<open>
  \<^verbatim>\<open>time64\<close> is GLib's 64-bit integer, the type \<^verbatim>\<open>int64_t\<close> names. \<^verbatim>\<open>GncDateTime()\<close> is the
  current time; the header that declares it is not part of the sources, so the reading of
  the clock is a parameter \<open>now\<close> of the two member functions that take one. The class has
  no member for a default: \<^verbatim>\<open>get_default_value\<close> reads the clock. \<^verbatim>\<open>get_value()\<close> and
  \<^verbatim>\<open>set_value(DateSetterValue)\<close> are declared in the header and defined elsewhere.
\<close>

datatype DateType = ABSOLUTE | STARTING | ENDING

datatype RelativeDatePeriod =
    TODAY
  | THIS_MONTH
  | PREV_MONTH
  | CURRENT_QUARTER
  | PREV_QUARTER
  | CAL_YEAR
  | PREV_YEAR
  | ACCOUNTING_PERIOD

type_synonym time64 = int
type_synonym DateSetterValue = "DateType \<times> int"

record GncOptionDateValue =
  date_classifier :: OptionClassifier
  date_ui :: OptionUIItem
  m_type :: DateType
  m_period :: RelativeDatePeriod
  m_date :: time64

definition GncOptionDateValue_ctor ::
  "time64 \<Rightarrow> string \<Rightarrow> string \<Rightarrow> string \<Rightarrow> string \<Rightarrow> GncOptionDateValue" where
  "GncOptionDateValue_ctor now section name key doc_string =
     \<lparr>date_classifier =
        \<lparr>m_section = section, m_name = name, m_sort_tag = key, m_doc_string = doc_string\<rparr>,
      date_ui = OptionUIItem_ctor DATE,
      m_type = ABSOLUTE,
      m_period = TODAY,
      m_date = now\<rparr>"

definition GncOptionDateValue_get_default_value :: "time64 \<Rightarrow> GncOptionDateValue \<Rightarrow> time64" where
  "GncOptionDateValue_get_default_value now this = now"

definition GncOptionDateValue_set_value :: "time64 \<Rightarrow> GncOptionDateValue \<Rightarrow> GncOptionDateValue" where
  "GncOptionDateValue_set_value time this = this\<lparr>m_type := ABSOLUTE, m_period := TODAY, m_date := time\<rparr>"

text \<open>
  Modelled from the spec: \<^verbatim>\<open>GncOptionDateValue::get_value()\<close> is declared in the header
  (\<^verbatim>\<open>time64 get_value() const;\<close>) and defined outside the sources. The specification has it
  return the stored timestamp in absolute mode and, in a relative mode, the boundary
  timestamp of the stored period evaluated at the time of the call, and gives it no failure.
  How the boundary of a period is computed is not specified; it is the parameter \<open>boundary\<close>,
  and the time of the call is \<open>now\<close>.
\<close>

definition GncOptionDateValue_get_value ::
  "(DateType \<Rightarrow> RelativeDatePeriod \<Rightarrow> time64 \<Rightarrow> time64) \<Rightarrow> time64 \<Rightarrow> GncOptionDateValue \<Rightarrow> time64" where
  "GncOptionDateValue_get_value boundary now this =
     (if m_type this = ABSOLUTE then m_date this else boundary (m_type this) (m_period this) now)"

section \<open>The \<^verbatim>\<open>GncOption\<close> facade\<close>

text \<open>
  \<^verbatim>\<open>GncOptionVariant\<close> is a \<^verbatim>\<open>std::variant\<close> of eleven cell types, in this order. \<^verbatim>\<open>GncGUID\<close> is
  an opaque 128-bit identifier and \<^verbatim>\<open>double\<close> is a real number here (no arithmetic is done
  on it; a NaN is outside this model).
\<close>

type_synonym GncGUID = "128 word"

datatype GncOptionVariant =
    Value_string "string GncOptionValue"
  | Value_bool "bool GncOptionValue"
  | Value_int64_t "int GncOptionValue"
  | Value_QofInstance_ptr "QofInstance_ptr GncOptionValue"
  | Value_QofQuery_ptr "QofQuery_ptr GncOptionValue"
  | Value_GncGUID_vector "GncGUID list GncOptionValue"
  | Multichoice GncOptionMultichoiceValue
  | Range_int "int GncOptionRangeValue"
  | Range_double "real GncOptionRangeValue"
  | Validated_QofInstance_ptr "QofInstance_ptr GncOptionValidatedValue"
  | Date GncOptionDateValue

record GncOption =
  m_option :: GncOptionVariant

text \<open>
  The member templates of the facade take the requested type as a template argument. The
  types a caller can name are modelled by the value types of the eleven cells and the
  argument type of the date cell's second setter, \<^verbatim>\<open>DateSetterValue\<close>; a value of one of them
  is tagged with its type, and \<open>value_init T\<close> is \<^verbatim>\<open>ValueType {}\<close>.
\<close>

datatype value_type =
    T_string
  | T_bool
  | T_int64_t
  | T_QofInstance_ptr
  | T_QofQuery_ptr
  | T_GncGUID_vector
  | T_int
  | T_double
  | T_DateSetterValue

datatype any_value =
    V_string string
  | V_bool bool
  | V_int64_t int
  | V_QofInstance_ptr QofInstance_ptr
  | V_QofQuery_ptr QofQuery_ptr
  | V_GncGUID_vector "GncGUID list"
  | V_int int
  | V_double real
  | V_DateSetterValue DateSetterValue

fun type_of :: "any_value \<Rightarrow> value_type" where
  "type_of (V_string _) = T_string"
| "type_of (V_bool _) = T_bool"
| "type_of (V_int64_t _) = T_int64_t"
| "type_of (V_QofInstance_ptr _) = T_QofInstance_ptr"
| "type_of (V_QofQuery_ptr _) = T_QofQuery_ptr"
| "type_of (V_GncGUID_vector _) = T_GncGUID_vector"
| "type_of (V_int _) = T_int"
| "type_of (V_double _) = T_double"
| "type_of (V_DateSetterValue _) = T_DateSetterValue"

fun value_init :: "value_type \<Rightarrow> any_value" where
  "value_init T_string = V_string []"
| "value_init T_bool = V_bool False"
| "value_init T_int64_t = V_int64_t 0"
| "value_init T_QofInstance_ptr = V_QofInstance_ptr nullptr"
| "value_init T_QofQuery_ptr = V_QofQuery_ptr nullptr"
| "value_init T_GncGUID_vector = V_GncGUID_vector []"
| "value_init T_int = V_int 0"
| "value_init T_double = V_double 0"
| "value_init T_DateSetterValue = V_DateSetterValue (ABSOLUTE, 0)"

text \<open>
  \<^verbatim>\<open>std::decay_t<decltype(option.get_value())>\<close> for each alternative: the value type of the
  cell; \<^verbatim>\<open>std::string\<close> for the multichoice cell (its \<^verbatim>\<open>get_value\<close> returns
  \<^verbatim>\<open>const std::string&\<close>) and \<^verbatim>\<open>time64\<close> for the date cell.
\<close>

fun get_value_type :: "GncOptionVariant \<Rightarrow> value_type" where
  "get_value_type (Value_string _) = T_string"
| "get_value_type (Value_bool _) = T_bool"
| "get_value_type (Value_int64_t _) = T_int64_t"
| "get_value_type (Value_QofInstance_ptr _) = T_QofInstance_ptr"
| "get_value_type (Value_QofQuery_ptr _) = T_QofQuery_ptr"
| "get_value_type (Value_GncGUID_vector _) = T_GncGUID_vector"
| "get_value_type (Multichoice _) = T_string"
| "get_value_type (Range_int _) = T_int"
| "get_value_type (Range_double _) = T_double"
| "get_value_type (Validated_QofInstance_ptr _) = T_QofInstance_ptr"
| "get_value_type (Date _) = T_int64_t"

text \<open>
  The visitor of \<^verbatim>\<open>GncOption::get_value<ValueType>\<close>: for each alternative, the cell's
  \<^verbatim>\<open>get_value()\<close> when the \<^verbatim>\<open>if constexpr\<close> holds and \<^verbatim>\<open>ValueType {}\<close> otherwise. \<open>dgv\<close>
  stands for \<^verbatim>\<open>GncOptionDateValue::get_value\<close>, which the header only declares.
\<close>

definition visit_get_value ::
  "(GncOptionDateValue \<Rightarrow> time64) \<Rightarrow> value_type \<Rightarrow> GncOptionVariant \<Rightarrow> exn + any_value" where
  "visit_get_value dgv T alt =
     (case alt of
        Value_string option \<Rightarrow>
          if T = T_string then Inr (V_string (GncOptionValue_get_value option)) else Inr (value_init T)
      | Value_bool option \<Rightarrow>
          if T = T_bool then Inr (V_bool (GncOptionValue_get_value option)) else Inr (value_init T)
      | Value_int64_t option \<Rightarrow>
          if T = T_int64_t then Inr (V_int64_t (GncOptionValue_get_value option)) else Inr (value_init T)
      | Value_QofInstance_ptr option \<Rightarrow>
          if T = T_QofInstance_ptr then Inr (V_QofInstance_ptr (GncOptionValue_get_value option))
          else Inr (value_init T)
      | Value_QofQuery_ptr option \<Rightarrow>
          if T = T_QofQuery_ptr then Inr (V_QofQuery_ptr (GncOptionValue_get_value option))
          else Inr (value_init T)
      | Value_GncGUID_vector option \<Rightarrow>
          if T = T_GncGUID_vector then Inr (V_GncGUID_vector (GncOptionValue_get_value option))
          else Inr (value_init T)
      | Multichoice option \<Rightarrow>
          if T = T_string
          then (case GncOptionMultichoiceValue_get_value option of
                  Inl e \<Rightarrow> Inl e
                | Inr s \<Rightarrow> Inr (V_string s))
          else Inr (value_init T)
      | Range_int option \<Rightarrow>
          if T = T_int then Inr (V_int (GncOptionRangeValue_get_value option)) else Inr (value_init T)
      | Range_double option \<Rightarrow>
          if T = T_double then Inr (V_double (GncOptionRangeValue_get_value option))
          else Inr (value_init T)
      | Validated_QofInstance_ptr option \<Rightarrow>
          if T = T_QofInstance_ptr then Inr (V_QofInstance_ptr (GncOptionValidatedValue_get_value option))
          else Inr (value_init T)
      | Date option \<Rightarrow>
          if T = T_int64_t then Inr (V_int64_t (dgv option)) else Inr (value_init T))"

definition GncOption_get_value ::
  "(GncOptionDateValue \<Rightarrow> time64) \<Rightarrow> value_type \<Rightarrow> GncOption \<Rightarrow> exn + any_value" where
  "GncOption_get_value dgv T this = visit_get_value dgv T (m_option this)"

text \<open>
  The visitor of \<^verbatim>\<open>GncOption::set_value<ValueType>\<close>: for each alternative, the cell's
  \<^verbatim>\<open>set_value\<close> when the \<^verbatim>\<open>if constexpr\<close> holds (for the date cell, a \<^verbatim>\<open>time64\<close> argument
  selects the setter that takes one) and nothing otherwise.
\<close>

definition visit_set_value :: "any_value \<Rightarrow> GncOptionVariant \<Rightarrow> GncOptionVariant outcome" where
  "visit_set_value v alt =
     (case alt of
        Value_string option \<Rightarrow>
          (case v of V_string x \<Rightarrow> Returned (Value_string (GncOptionValue_set_value x option))
           | _ \<Rightarrow> Returned alt)
      | Value_bool option \<Rightarrow>
          (case v of V_bool x \<Rightarrow> Returned (Value_bool (GncOptionValue_set_value x option))
           | _ \<Rightarrow> Returned alt)
      | Value_int64_t option \<Rightarrow>
          (case v of V_int64_t x \<Rightarrow> Returned (Value_int64_t (GncOptionValue_set_value x option))
           | _ \<Rightarrow> Returned alt)
      | Value_QofInstance_ptr option \<Rightarrow>
          (case v of
             V_QofInstance_ptr x \<Rightarrow> Returned (Value_QofInstance_ptr (GncOptionValue_set_value x option))
           | _ \<Rightarrow> Returned alt)
      | Value_QofQuery_ptr option \<Rightarrow>
          (case v of
             V_QofQuery_ptr x \<Rightarrow> Returned (Value_QofQuery_ptr (GncOptionValue_set_value x option))
           | _ \<Rightarrow> Returned alt)
      | Value_GncGUID_vector option \<Rightarrow>
          (case v of
             V_GncGUID_vector x \<Rightarrow> Returned (Value_GncGUID_vector (GncOptionValue_set_value x option))
           | _ \<Rightarrow> Returned alt)
      | Multichoice option \<Rightarrow>
          (case v of
             V_string x \<Rightarrow> map_outcome Multichoice (GncOptionMultichoiceValue_set_value x option)
           | _ \<Rightarrow> Returned alt)
      | Range_int option \<Rightarrow>
          (case v of V_int x \<Rightarrow> map_outcome Range_int (GncOptionRangeValue_set_value x option)
           | _ \<Rightarrow> Returned alt)
      | Range_double option \<Rightarrow>
          (case v of V_double x \<Rightarrow> map_outcome Range_double (GncOptionRangeValue_set_value x option)
           | _ \<Rightarrow> Returned alt)
      | Validated_QofInstance_ptr option \<Rightarrow>
          (case v of
             V_QofInstance_ptr x \<Rightarrow>
               map_outcome Validated_QofInstance_ptr (GncOptionValidatedValue_set_value x option)
           | _ \<Rightarrow> Returned alt)
      | Date option \<Rightarrow>
          (case v of V_int64_t x \<Rightarrow> Returned (Date (GncOptionDateValue_set_value x option))
           | _ \<Rightarrow> Returned alt))"

definition GncOption_set_value :: "any_value \<Rightarrow> GncOption \<Rightarrow> GncOption outcome" where
  "GncOption_set_value v this =
     map_outcome (\<lambda>alt. this\<lparr>m_option := alt\<rparr>) (visit_set_value v (m_option this))"

section \<open>Sequences of calls\<close>

text \<open>
  The cell after a sequence of \<^verbatim>\<open>set_value\<close> calls, made one after the other on the same
  cell; a call that throws leaves the cell in the state the outcome records, and the next
  call is made on that. For the multichoice cell the sequence may also hold calls of the UI
  mixin it inherits; for the date cell the calls are those of \<^verbatim>\<open>set_value(time64)\<close>.
\<close>

definition GncOptionValue_after :: "'a GncOptionValue \<Rightarrow> 'a list \<Rightarrow> 'a GncOptionValue" where
  "GncOptionValue_after this vs = foldl (\<lambda>c v. GncOptionValue_set_value v c) this vs"

definition GncOptionValidatedValue_after ::
  "'a GncOptionValidatedValue \<Rightarrow> 'a list \<Rightarrow> 'a GncOptionValidatedValue" where
  "GncOptionValidatedValue_after this vs =
     foldl (\<lambda>c v. state_of (GncOptionValidatedValue_set_value v c)) this vs"

definition GncOptionRangeValue_after ::
  "'a::ord GncOptionRangeValue \<Rightarrow> 'a list \<Rightarrow> 'a GncOptionRangeValue" where
  "GncOptionRangeValue_after this vs =
     foldl (\<lambda>c v. state_of (GncOptionRangeValue_set_value v c)) this vs"

definition GncOptionMultichoiceValue_after ::
  "GncOptionMultichoiceValue \<Rightarrow> multichoice_call list \<Rightarrow> GncOptionMultichoiceValue" where
  "GncOptionMultichoiceValue_after this calls = foldl multichoice_step this calls"

definition GncOptionDateValue_after :: "GncOptionDateValue \<Rightarrow> time64 list \<Rightarrow> GncOptionDateValue" where
  "GncOptionDateValue_after this ts = foldl (\<lambda>c t. GncOptionDateValue_set_value t c) this ts"

section \<open>The UI binding\<close>

lemma ui_step_internal_no_item:
  "(m_ui_type u = INTERNAL \<longrightarrow> m_ui_item u = nullptr) \<Longrightarrow>
   m_ui_type (ui_step u c) = INTERNAL \<longrightarrow> m_ui_item (ui_step u c) = nullptr"
  by (cases c) (simp_all add: set_ui_item_def clear_ui_item_def make_internal_def)

lemma foldl_ui_step_internal_no_item:
  "(m_ui_type u = INTERNAL \<longrightarrow> m_ui_item u = nullptr) \<Longrightarrow>
   m_ui_type (foldl ui_step u calls) = INTERNAL \<longrightarrow> m_ui_item (foldl ui_step u calls) = nullptr"
proof (induction calls arbitrary: u)
  case Nil
  then show ?case by simp
next
  case (Cons c calls)
  from Cons.prems have "m_ui_type (ui_step u c) = INTERNAL \<longrightarrow> m_ui_item (ui_step u c) = nullptr"
    by (rule ui_step_internal_no_item)
  then show ?case using Cons.IH by simp
qed

lemma ui_run_internal_no_item:
  "m_ui_type (ui_run t calls) = INTERNAL \<Longrightarrow> m_ui_item (ui_run t calls) = nullptr"
  using foldl_ui_step_internal_no_item [of "OptionUIItem_ctor t" calls]
  by (simp add: ui_run_def OptionUIItem_ctor_def)

text \<open>
  C2, as the code has it. In every state a UI binding reaches from its construction (with
  any \<open>ui_type\<close>) by any sequence of \<^verbatim>\<open>set_ui_item\<close>, \<^verbatim>\<open>clear_ui_item\<close> and \<^verbatim>\<open>make_internal\<close>
  calls: an INTERNAL binding has no UI item (the converse does not hold: a binding of any
  other type is constructed without an item, and \<^verbatim>\<open>clear_ui_item\<close> removes the item and keeps
  the type); \<^verbatim>\<open>set_ui_item\<close> throws \<^verbatim>\<open>std::logic_error\<close> and changes nothing while the type
  is INTERNAL; \<^verbatim>\<open>make_internal\<close> throws \<^verbatim>\<open>std::logic_error\<close> and changes nothing while an
  item is attached; after a \<^verbatim>\<open>make_internal\<close> that returned, \<^verbatim>\<open>set_ui_item\<close> throws; and
  \<^verbatim>\<open>make_internal()\<close> followed by \<^verbatim>\<open>set_ui_item(h)\<close> always ends in a \<^verbatim>\<open>std::logic_error\<close>.
\<close>

theorem ui_binding_internal_has_no_item:
  "(m_ui_type (ui_run t calls) = INTERNAL \<longrightarrow> m_ui_item (ui_run t calls) = nullptr)
   \<and> (m_ui_type (ui_run t calls) = INTERNAL \<longrightarrow>
        set_ui_item h (ui_run t calls)
          = Threw (logic_error ''INTERNAL option, setting the UI item forbidden.'') (ui_run t calls))
   \<and> (m_ui_item (ui_run t calls) \<noteq> nullptr \<longrightarrow>
        make_internal (ui_run t calls)
          = Threw (logic_error ''Option has a UI Element, can't be INTERNAL.'') (ui_run t calls))
   \<and> (\<forall>u'. make_internal (ui_run t calls) = Returned u' \<longrightarrow>
        set_ui_item h u' = Threw (logic_error ''INTERNAL option, setting the UI item forbidden.'') u')
   \<and> (\<exists>msg u'. then_call (make_internal (ui_run t calls)) (set_ui_item h) = Threw (logic_error msg) u')"
proof (intro conjI)
  show "m_ui_type (ui_run t calls) = INTERNAL \<longrightarrow> m_ui_item (ui_run t calls) = nullptr"
    by (simp add: ui_run_internal_no_item)
  show "m_ui_type (ui_run t calls) = INTERNAL \<longrightarrow>
        set_ui_item h (ui_run t calls)
          = Threw (logic_error ''INTERNAL option, setting the UI item forbidden.'') (ui_run t calls)"
    by (simp add: set_ui_item_def)
  show "m_ui_item (ui_run t calls) \<noteq> nullptr \<longrightarrow>
        make_internal (ui_run t calls)
          = Threw (logic_error ''Option has a UI Element, can't be INTERNAL.'') (ui_run t calls)"
    by (simp add: make_internal_def)
  show "\<forall>u'. make_internal (ui_run t calls) = Returned u' \<longrightarrow>
        set_ui_item h u' = Threw (logic_error ''INTERNAL option, setting the UI item forbidden.'') u'"
    by (auto simp add: make_internal_def set_ui_item_def split: if_splits)
  show "\<exists>msg u'. then_call (make_internal (ui_run t calls)) (set_ui_item h) = Threw (logic_error msg) u'"
    by (simp add: make_internal_def set_ui_item_def)
qed

theorem ui_binding_iff_counterexample:
  "\<not> (m_ui_type (ui_run BOOLEAN []) = INTERNAL \<longleftrightarrow> m_ui_item (ui_run BOOLEAN []) = nullptr)"
  by (simp add: ui_run_def OptionUIItem_ctor_def)

theorem ui_binding_internal_has_no_item_witness:
  "m_ui_type (ui_run BOOLEAN [Call_set_ui_item (addr 1), Call_clear_ui_item, Call_make_internal]) = INTERNAL
   \<and> m_ui_item (ui_run BOOLEAN [Call_set_ui_item (addr 1), Call_clear_ui_item, Call_make_internal]) = nullptr
   \<and> set_ui_item (addr 2) (ui_run BOOLEAN [Call_set_ui_item (addr 1), Call_clear_ui_item, Call_make_internal])
       = Threw (logic_error ''INTERNAL option, setting the UI item forbidden.'')
           (ui_run BOOLEAN [Call_set_ui_item (addr 1), Call_clear_ui_item, Call_make_internal])
   \<and> m_ui_item (ui_run BOOLEAN [Call_set_ui_item (addr 1)]) \<noteq> nullptr
   \<and> make_internal (ui_run BOOLEAN [Call_set_ui_item (addr 1)])
       = Threw (logic_error ''Option has a UI Element, can't be INTERNAL.'')
           (ui_run BOOLEAN [Call_set_ui_item (addr 1)])
   \<and> make_internal (ui_run BOOLEAN []) = Returned (ui_run INTERNAL [])
   \<and> set_ui_item (addr 2) (ui_run INTERNAL [])
       = Threw (logic_error ''INTERNAL option, setting the UI item forbidden.'') (ui_run INTERNAL [])"
  using ui_binding_internal_has_no_item
          [of BOOLEAN "[Call_set_ui_item (addr 1), Call_clear_ui_item, Call_make_internal]" "addr 2"]
        ui_binding_internal_has_no_item [of BOOLEAN "[Call_set_ui_item (addr 1)]" "addr 2"]
        ui_binding_internal_has_no_item [of BOOLEAN "[]" "addr 2"]
  by (simp add: ui_run_def OptionUIItem_ctor_def set_ui_item_def clear_ui_item_def make_internal_def)

section \<open>The facade\<close>

text \<open>
  C1. For a facade whose active cell has the value type \<open>U\<close> and a requested type \<open>T\<close> other
  than \<open>U\<close>: \<^verbatim>\<open>get_value<T>()\<close> returns \<^verbatim>\<open>T{}\<close> and does not throw (whatever the cell's own
  \<^verbatim>\<open>get_value\<close> would do), and \<^verbatim>\<open>set_value<T>(x)\<close> returns and leaves the facade, with the
  value, default, classifier and UI binding of its cell, as it was.
\<close>

theorem facade_type_mismatch:
  "(T \<noteq> get_value_type (m_option this) \<longrightarrow> GncOption_get_value dgv T this = Inr (value_init T))
   \<and> (type_of v \<noteq> get_value_type (m_option this) \<longrightarrow> GncOption_set_value v this = Returned this)"
proof (intro conjI impI)
  assume "T \<noteq> get_value_type (m_option this)"
  then show "GncOption_get_value dgv T this = Inr (value_init T)"
    by (cases "m_option this") (simp_all add: GncOption_get_value_def visit_get_value_def)
next
  assume "type_of v \<noteq> get_value_type (m_option this)"
  then have "visit_set_value v (m_option this) = Returned (m_option this)"
    by (cases "m_option this"; cases v) (simp_all add: visit_set_value_def)
  then show "GncOption_set_value v this = Returned this"
    by (simp add: GncOption_set_value_def)
qed

theorem facade_type_mismatch_witness:
  "T_bool \<noteq> get_value_type (m_option \<lparr>m_option = Multichoice (GncOptionMultichoiceValue_ctor ''s'' ''n'' ''k'' ''d'' [] MULTICHOICE)\<rparr>)
   \<and> GncOption_get_value m_date T_bool
        \<lparr>m_option = Multichoice (GncOptionMultichoiceValue_ctor ''s'' ''n'' ''k'' ''d'' [] MULTICHOICE)\<rparr>
       = Inr (V_bool False)
   \<and> type_of (V_int64_t 7) \<noteq> get_value_type (m_option \<lparr>m_option = Multichoice (GncOptionMultichoiceValue_ctor ''s'' ''n'' ''k'' ''d'' [] MULTICHOICE)\<rparr>)
   \<and> GncOption_set_value (V_int64_t 7)
        \<lparr>m_option = Multichoice (GncOptionMultichoiceValue_ctor ''s'' ''n'' ''k'' ''d'' [] MULTICHOICE)\<rparr>
       = Returned \<lparr>m_option = Multichoice (GncOptionMultichoiceValue_ctor ''s'' ''n'' ''k'' ''d'' [] MULTICHOICE)\<rparr>"
  using facade_type_mismatch
          [of T_bool "\<lparr>m_option = Multichoice (GncOptionMultichoiceValue_ctor ''s'' ''n'' ''k'' ''d'' [] MULTICHOICE)\<rparr>"
              m_date "V_int64_t 7"]
  by simp

section \<open>Range cells\<close>

text \<open>
  C5. A range cell constructed with \<open>(v, min, max, step)\<close> stores \<open>v\<close> as its value and as
  its default when \<open>min \<le> v \<le> max\<close>, and \<open>min\<close> as both otherwise; the constructor has no
  failing branch.
\<close>

theorem range_ctor_value_or_min:
  "GncOptionRangeValue_get_value (GncOptionRangeValue_ctor section name key doc_string v minv maxv step)
     = (if minv \<le> v \<and> v \<le> maxv then v else minv)
   \<and> GncOptionRangeValue_get_default_value
        (GncOptionRangeValue_ctor section name key doc_string v minv maxv step)
     = (if minv \<le> v \<and> v \<le> maxv then v else minv)"
  by (simp add: GncOptionRangeValue_ctor_def GncOptionRangeValue_get_value_def
      GncOptionRangeValue_get_default_value_def)

theorem range_ctor_value_or_min_witness:
  "GncOptionRangeValue_get_value (GncOptionRangeValue_ctor ''s'' ''n'' ''k'' ''d'' (5::int) 0 10 1) = 5
   \<and> GncOptionRangeValue_get_default_value (GncOptionRangeValue_ctor ''s'' ''n'' ''k'' ''d'' (5::int) 0 10 1) = 5
   \<and> GncOptionRangeValue_get_value (GncOptionRangeValue_ctor ''s'' ''n'' ''k'' ''d'' (15::int) 0 10 1) = 0
   \<and> GncOptionRangeValue_get_default_value (GncOptionRangeValue_ctor ''s'' ''n'' ''k'' ''d'' (15::int) 0 10 1) = 0
   \<and> GncOptionRangeValue_get_value (GncOptionRangeValue_ctor ''s'' ''n'' ''k'' ''d'' (-1::real) 2 10 1) = 2"
  using range_ctor_value_or_min [of "''s''" "''n''" "''k''" "''d''" "5::int" 0 10 1]
        range_ctor_value_or_min [of "''s''" "''n''" "''k''" "''d''" "15::int" 0 10 1]
        range_ctor_value_or_min [of "''s''" "''n''" "''k''" "''d''" "-1::real" 2 10 1]
  by simp

text \<open>
  C6. On any range cell, \<^verbatim>\<open>set_value(v)\<close> with \<open>v\<close> outside \<open>[min, max]\<close> throws
  \<^verbatim>\<open>std::invalid_argument\<close> (\<open>ValidationFailed\<close>) and leaves the cell, so its value and its
  default, as it was; with \<open>v\<close> inside, it returns, the stored value is \<open>v\<close> and the default
  is unchanged.
\<close>

theorem range_set_value_rejects_outside:
  "(\<not> (range_m_min this \<le> v \<and> v \<le> range_m_max this) \<longrightarrow>
      GncOptionRangeValue_set_value v this
        = Threw (invalid_argument ''Validation failed, value not set.'') this)
   \<and> (range_m_min this \<le> v \<and> v \<le> range_m_max this \<longrightarrow>
      GncOptionRangeValue_set_value v this = Returned (this\<lparr>range_m_value := v\<rparr>)
      \<and> GncOptionRangeValue_get_value (state_of (GncOptionRangeValue_set_value v this)) = v
      \<and> GncOptionRangeValue_get_default_value (state_of (GncOptionRangeValue_set_value v this))
          = GncOptionRangeValue_get_default_value this)"
  by (simp add: GncOptionRangeValue_set_value_def GncOptionRangeValue_validate_def
      GncOptionRangeValue_get_value_def GncOptionRangeValue_get_default_value_def)

theorem range_set_value_rejects_outside_witness:
  "\<not> (range_m_min (GncOptionRangeValue_ctor ''s'' ''n'' ''k'' ''d'' (5::int) 0 10 1) \<le> 15
       \<and> 15 \<le> range_m_max (GncOptionRangeValue_ctor ''s'' ''n'' ''k'' ''d'' (5::int) 0 10 1))
   \<and> GncOptionRangeValue_set_value 15 (GncOptionRangeValue_ctor ''s'' ''n'' ''k'' ''d'' (5::int) 0 10 1)
       = Threw (invalid_argument ''Validation failed, value not set.'')
           (GncOptionRangeValue_ctor ''s'' ''n'' ''k'' ''d'' (5::int) 0 10 1)
   \<and> GncOptionRangeValue_get_value
        (state_of (GncOptionRangeValue_set_value 15 (GncOptionRangeValue_ctor ''s'' ''n'' ''k'' ''d'' (5::int) 0 10 1)))
       = 5
   \<and> range_m_min (GncOptionRangeValue_ctor ''s'' ''n'' ''k'' ''d'' (5::int) 0 10 1) \<le> 7
   \<and> 7 \<le> range_m_max (GncOptionRangeValue_ctor ''s'' ''n'' ''k'' ''d'' (5::int) 0 10 1)
   \<and> GncOptionRangeValue_get_value
        (state_of (GncOptionRangeValue_set_value 7 (GncOptionRangeValue_ctor ''s'' ''n'' ''k'' ''d'' (5::int) 0 10 1)))
       = 7
   \<and> GncOptionRangeValue_get_default_value
        (state_of (GncOptionRangeValue_set_value 7 (GncOptionRangeValue_ctor ''s'' ''n'' ''k'' ''d'' (5::int) 0 10 1)))
       = 5"
  using range_set_value_rejects_outside [of "GncOptionRangeValue_ctor ''s'' ''n'' ''k'' ''d'' (5::int) 0 10 1" 15]
        range_set_value_rejects_outside [of "GncOptionRangeValue_ctor ''s'' ''n'' ''k'' ''d'' (5::int) 0 10 1" 7]
  by (simp add: GncOptionRangeValue_ctor_def GncOptionRangeValue_get_value_def
      GncOptionRangeValue_get_default_value_def)

section \<open>Validated cells\<close>

lemma validated_set_value_validator:
  "validated_m_validator (state_of (GncOptionValidatedValue_set_value v c)) = validated_m_validator c"
  by (simp add: GncOptionValidatedValue_set_value_def)

lemma validated_set_value_keeps_valid:
  "validated_m_validator c (validated_m_value c) \<Longrightarrow>
   validated_m_validator (state_of (GncOptionValidatedValue_set_value v c))
     (validated_m_value (state_of (GncOptionValidatedValue_set_value v c)))"
  by (simp add: GncOptionValidatedValue_set_value_def GncOptionValidatedValue_validate_def)

lemma validated_after_keeps_valid:
  "validated_m_validator c (validated_m_value c) \<Longrightarrow>
   validated_m_validator (GncOptionValidatedValue_after c vs)
     (validated_m_value (GncOptionValidatedValue_after c vs))"
  unfolding GncOptionValidatedValue_after_def
proof (induction vs arbitrary: c)
  case Nil
  then show ?case by simp
next
  case (Cons v vs)
  from Cons.prems show ?case
    by (simp add: Cons.IH validated_set_value_keeps_valid)
qed

lemma validated_after_validator:
  "validated_m_validator (GncOptionValidatedValue_after c vs) = validated_m_validator c"
  unfolding GncOptionValidatedValue_after_def
  by (induction vs arbitrary: c) (simp_all add: validated_set_value_validator)

lemma validated_ctor_Inr:
  "GncOptionValidatedValue_ctor section name key doc_string v validator ui_type = Inr c \<Longrightarrow>
   validator v \<and> validated_m_validator c = validator \<and> validated_m_value c = v
   \<and> validated_m_default_value c = v"
  by (auto simp add: GncOptionValidatedValue_ctor_def GncOptionValidatedValue_validate_def Let_def
      split: if_splits)

text \<open>
  C7. On a validated cell that its constructor produced, after any sequence of \<^verbatim>\<open>set_value\<close>
  calls the stored value satisfies the validator; a further \<^verbatim>\<open>set_value(x)\<close> stores \<open>x\<close> when
  the validator accepts it, and otherwise throws \<^verbatim>\<open>std::invalid_argument\<close> and leaves the
  cell, so the stored value, as it was before the call.
\<close>

theorem validated_value_always_valid:
  assumes "GncOptionValidatedValue_ctor section name key doc_string v validator ui_type = Inr c"
  shows "validator (GncOptionValidatedValue_get_value (GncOptionValidatedValue_after c vs))
     \<and> (if validator x
         then GncOptionValidatedValue_set_value x (GncOptionValidatedValue_after c vs)
                = Returned ((GncOptionValidatedValue_after c vs)\<lparr>validated_m_value := x\<rparr>)
         else GncOptionValidatedValue_set_value x (GncOptionValidatedValue_after c vs)
                = Threw (invalid_argument ''Validation failed, value not set.'')
                    (GncOptionValidatedValue_after c vs))"
proof -
  from assms have c: "validator v" "validated_m_validator c = validator" "validated_m_value c = v"
    using validated_ctor_Inr [OF assms] by simp_all
  have valid: "validated_m_validator (GncOptionValidatedValue_after c vs)
     (validated_m_value (GncOptionValidatedValue_after c vs))"
    by (rule validated_after_keeps_valid) (simp add: c)
  have same: "validated_m_validator (GncOptionValidatedValue_after c vs) = validator"
    by (simp add: validated_after_validator c)
  from valid same show ?thesis
    by (simp add: GncOptionValidatedValue_get_value_def GncOptionValidatedValue_set_value_def
        GncOptionValidatedValue_validate_def)
qed

theorem validated_value_always_valid_witness:
  "GncOptionValidatedValue_ctor ''s'' ''n'' ''k'' ''d'' (1::int) (\<lambda>x. 0 < x) INTERNAL
     = Inr \<lparr>validated_classifier =
               \<lparr>m_section = ''s'', m_name = ''n'', m_sort_tag = ''k'', m_doc_string = ''d''\<rparr>,
             validated_ui = OptionUIItem_ctor INTERNAL,
             validated_m_value = 1::int,
             validated_m_default_value = 1,
             validated_m_validator = (\<lambda>x::int. 0 < x),
             validated_m_validation_data = None\<rparr>
   \<and> 0 < GncOptionValidatedValue_get_value
        (GncOptionValidatedValue_after
           \<lparr>validated_classifier =
              \<lparr>m_section = ''s'', m_name = ''n'', m_sort_tag = ''k'', m_doc_string = ''d''\<rparr>,
            validated_ui = OptionUIItem_ctor INTERNAL,
            validated_m_value = 1::int,
            validated_m_default_value = 1,
            validated_m_validator = (\<lambda>x::int. 0 < x),
            validated_m_validation_data = None\<rparr>
           [5, - 3, 2])
   \<and> GncOptionValidatedValue_set_value (- 1)
        (GncOptionValidatedValue_after
           \<lparr>validated_classifier =
              \<lparr>m_section = ''s'', m_name = ''n'', m_sort_tag = ''k'', m_doc_string = ''d''\<rparr>,
            validated_ui = OptionUIItem_ctor INTERNAL,
            validated_m_value = 1::int,
            validated_m_default_value = 1,
            validated_m_validator = (\<lambda>x::int. 0 < x),
            validated_m_validation_data = None\<rparr>
           [5, - 3, 2])
       = Threw (invalid_argument ''Validation failed, value not set.'')
           (GncOptionValidatedValue_after
              \<lparr>validated_classifier =
                 \<lparr>m_section = ''s'', m_name = ''n'', m_sort_tag = ''k'', m_doc_string = ''d''\<rparr>,
               validated_ui = OptionUIItem_ctor INTERNAL,
               validated_m_value = 1::int,
               validated_m_default_value = 1,
               validated_m_validator = (\<lambda>x::int. 0 < x),
               validated_m_validation_data = None\<rparr>
              [5, - 3, 2])"
proof -
  let ?c = "\<lparr>validated_classifier =
              \<lparr>m_section = ''s'', m_name = ''n'', m_sort_tag = ''k'', m_doc_string = ''d''\<rparr>,
            validated_ui = OptionUIItem_ctor INTERNAL,
            validated_m_value = 1::int,
            validated_m_default_value = 1,
            validated_m_validator = (\<lambda>x::int. 0 < x),
            validated_m_validation_data = None\<rparr>"
  have built: "GncOptionValidatedValue_ctor ''s'' ''n'' ''k'' ''d'' (1::int) (\<lambda>x. 0 < x) INTERNAL = Inr ?c"
    by (simp add: GncOptionValidatedValue_ctor_def GncOptionValidatedValue_validate_def)
  from validated_value_always_valid [OF built, of "[5, - 3, 2]" "- 1"] built
  show ?thesis
    by simp
qed

text \<open>
  C8. Constructing a validated cell with a value the validator rejects throws
  \<^verbatim>\<open>std::invalid_argument\<close> (\<open>InvalidArgument\<close>) and produces no cell; with a value the
  validator accepts it produces the cell holding that value as value and default.
\<close>

theorem validated_ctor_checks_value:
  "GncOptionValidatedValue_ctor section name key doc_string v validator ui_type
     = (if validator v
        then Inr \<lparr>validated_classifier =
                   \<lparr>m_section = section, m_name = name, m_sort_tag = key, m_doc_string = doc_string\<rparr>,
                 validated_ui = OptionUIItem_ctor ui_type,
                 validated_m_value = v,
                 validated_m_default_value = v,
                 validated_m_validator = validator,
                 validated_m_validation_data = None\<rparr>
        else Inl (invalid_argument ''Attempt to create GncValidatedOption with bad value.''))"
  by (simp add: GncOptionValidatedValue_ctor_def GncOptionValidatedValue_validate_def)

theorem validated_ctor_checks_value_witness:
  "GncOptionValidatedValue_ctor ''s'' ''n'' ''k'' ''d'' (1::int) (\<lambda>x. 0 < x) INTERNAL
     = Inr \<lparr>validated_classifier =
               \<lparr>m_section = ''s'', m_name = ''n'', m_sort_tag = ''k'', m_doc_string = ''d''\<rparr>,
             validated_ui = OptionUIItem_ctor INTERNAL,
             validated_m_value = 1::int,
             validated_m_default_value = 1,
             validated_m_validator = (\<lambda>x::int. 0 < x),
             validated_m_validation_data = None\<rparr>
   \<and> GncOptionValidatedValue_ctor ''s'' ''n'' ''k'' ''d'' (- 1 :: int) (\<lambda>x. 0 < x) INTERNAL
     = Inl (invalid_argument ''Attempt to create GncValidatedOption with bad value.'')"
  using validated_ctor_checks_value [of "''s''" "''n''" "''k''" "''d''" "1::int" "\<lambda>x. 0 < x" INTERNAL]
        validated_ctor_checks_value [of "''s''" "''n''" "''k''" "''d''" "- 1 :: int" "\<lambda>x. 0 < x" INTERNAL]
  by simp

section \<open>Searching a vector, indices as words\<close>

lemma find_if_le: "find_if p xs \<le> length xs"
  by (induction xs) simp_all

lemma find_if_none: "(\<forall>x \<in> set xs. \<not> p x) \<Longrightarrow> find_if p xs = length xs"
  by (induction xs) simp_all

lemma find_if_some: "\<exists>x \<in> set xs. p x \<Longrightarrow> find_if p xs < length xs \<and> p (xs ! find_if p xs)"
  by (induction xs) auto

lemma find_if_first: "j < find_if p xs \<Longrightarrow> \<not> p (xs ! j)"
proof (induction xs arbitrary: j)
  case Nil
  then show ?case by simp
next
  case (Cons x xs)
  then show ?case by (cases j) (auto split: if_splits)
qed

lemma unat_size_t_max: "unat size_t_max = 2 ^ 64 - 1"
  by (simp add: size_t_max_def unsigned_minus_1_eq_mask mask_eq_exp_minus_1)

lemma of_nat_index_neq_max:
  assumes "i < n" "n < 2 ^ 64"
  shows "(of_nat i :: size_t) \<noteq> size_t_max \<and> unat (of_nat i :: size_t) = i"
proof -
  have u: "unat (of_nat i :: size_t) = i"
    using assms by (simp add: unat_of_nat)
  have "unat (of_nat i :: size_t) \<noteq> unat size_t_max"
    using assms unfolding u unat_size_t_max by simp
  then show ?thesis using u by auto
qed

lemma unat_of_nat_le: "unat (of_nat i :: size_t) \<le> i"
  by (simp add: unat_of_nat)

section \<open>Multichoice cells\<close>

lemma find_key_absent:
  "key \<notin> fst ` set (m_choices this) \<Longrightarrow> find_key key this = size_t_max"
proof -
  assume "key \<notin> fst ` set (m_choices this)"
  then have "\<forall>choice \<in> set (m_choices this). \<not> fst choice = key"
    by auto
  then have "find_if (\<lambda>choice. fst choice = key) (m_choices this) = length (m_choices this)"
    by (rule find_if_none)
  then show ?thesis
    by (simp add: find_key_def)
qed

lemma find_key_present:
  assumes "key \<in> fst ` set (m_choices this)" and "length (m_choices this) < 2 ^ 64"
  defines "i \<equiv> find_if (\<lambda>choice. fst choice = key) (m_choices this)"
  shows "i < length (m_choices this)" and "fst (m_choices this ! i) = key"
    and "find_key key this = of_nat i" and "find_key key this \<noteq> size_t_max"
    and "unat (find_key key this) = i"
proof -
  from assms(1) have "\<exists>choice \<in> set (m_choices this). fst choice = key"
    by auto
  from find_if_some [OF this]
  show lt: "i < length (m_choices this)" and "fst (m_choices this ! i) = key"
    by (simp_all add: i_def)
  then show fk: "find_key key this = of_nat i"
    by (simp add: find_key_def i_def)
  from of_nat_index_neq_max [OF lt assms(2)]
  show "find_key key this \<noteq> size_t_max" and "unat (find_key key this) = i"
    by (simp_all add: fk)
qed

text \<open>
  C9. For a key that is the key of no entry of a multichoice cell,
  \<^verbatim>\<open>permissible_value_index(key)\<close> returns the sentinel
  \<^verbatim>\<open>std::numeric_limits<std::size_t>::max()\<close>, and \<^verbatim>\<open>set_value(key)\<close> throws
  \<^verbatim>\<open>std::invalid_argument\<close> (\<open>ValidationFailed\<close>) and leaves the cell, so the selected index,
  as it was.
\<close>

theorem multichoice_unknown_key_rejected:
  assumes "key \<notin> fst ` set (m_choices this)"
  shows "permissible_value_index key this = size_t_max
     \<and> GncOptionMultichoiceValue_set_value key this
         = Threw (invalid_argument ''Value not a valid choice.'') this"
  using find_key_absent [OF assms]
  by (simp add: permissible_value_index_def GncOptionMultichoiceValue_set_value_def)

theorem multichoice_unknown_key_rejected_witness:
  "''c'' \<notin> fst ` set (m_choices
      (GncOptionMultichoiceValue_ctor ''s'' ''n'' ''k'' ''d''
         [(''a'', ''Alpha'', []), (''b'', ''Beta'', [])] MULTICHOICE))
   \<and> permissible_value_index ''c''
        (GncOptionMultichoiceValue_ctor ''s'' ''n'' ''k'' ''d''
           [(''a'', ''Alpha'', []), (''b'', ''Beta'', [])] MULTICHOICE)
       = size_t_max
   \<and> GncOptionMultichoiceValue_set_value ''c''
        (GncOptionMultichoiceValue_ctor ''s'' ''n'' ''k'' ''d''
           [(''a'', ''Alpha'', []), (''b'', ''Beta'', [])] MULTICHOICE)
       = Threw (invalid_argument ''Value not a valid choice.'')
           (GncOptionMultichoiceValue_ctor ''s'' ''n'' ''k'' ''d''
              [(''a'', ''Alpha'', []), (''b'', ''Beta'', [])] MULTICHOICE)"
proof -
  have absent: "''c'' \<notin> fst ` set (m_choices
      (GncOptionMultichoiceValue_ctor ''s'' ''n'' ''k'' ''d''
         [(''a'', ''Alpha'', []), (''b'', ''Beta'', [])] MULTICHOICE))"
    by (simp add: GncOptionMultichoiceValue_ctor_def)
  from absent multichoice_unknown_key_rejected [OF absent] show ?thesis
    by simp
qed

text \<open>
  C10. For a key that is the key of some entry of a multichoice cell (of one or of several),
  \<^verbatim>\<open>set_value(key)\<close> returns and selects the index \<open>i\<close> of the first entry with that key in
  the order of the choices (no entry before \<open>i\<close> has the key), and \<^verbatim>\<open>get_value()\<close> on the cell
  it leaves returns \<open>key\<close>. The choices are a \<^verbatim>\<open>std::vector\<close>, whose size is a
  \<^verbatim>\<open>std::size_t\<close> below \<^verbatim>\<open>max_size()\<close>: fewer than \<open>2^64\<close> entries.
\<close>

theorem multichoice_set_value_first_match:
  assumes "key \<in> fst ` set (m_choices this)" and "length (m_choices this) < 2 ^ 64"
  shows "\<exists>i. i < length (m_choices this)
     \<and> fst (m_choices this ! i) = key
     \<and> (\<forall>j<i. fst (m_choices this ! j) \<noteq> key)
     \<and> GncOptionMultichoiceValue_set_value key this
         = Returned (this\<lparr>multichoice_m_value := of_nat i\<rparr>)
     \<and> unat (of_nat i :: size_t) = i
     \<and> GncOptionMultichoiceValue_get_value (state_of (GncOptionMultichoiceValue_set_value key this))
         = Inr key"
proof -
  define i where "i = find_if (\<lambda>choice. fst choice = key) (m_choices this)"
  note fk = find_key_present [OF assms, folded i_def]
  have first: "\<forall>j<i. fst (m_choices this ! j) \<noteq> key"
    using find_if_first [of _ "\<lambda>choice. fst choice = key" "m_choices this"]
    by (simp add: i_def)
  have sv: "GncOptionMultichoiceValue_set_value key this
         = Returned (this\<lparr>multichoice_m_value := of_nat i\<rparr>)"
    using fk(3,4) by (simp add: GncOptionMultichoiceValue_set_value_def)
  have u: "unat (of_nat i :: size_t) = i"
    using fk(3,5) by simp
  have gv: "GncOptionMultichoiceValue_get_value (state_of (GncOptionMultichoiceValue_set_value key this))
         = Inr key"
    using fk(1,2) u by (simp add: sv GncOptionMultichoiceValue_get_value_def vector_at_def)
  from fk(1,2) first sv u gv show ?thesis
    by blast
qed

theorem multichoice_set_value_first_match_witness:
  "''b'' \<in> fst ` set (m_choices
      (GncOptionMultichoiceValue_ctor ''s'' ''n'' ''k'' ''d''
         [(''a'', ''Alpha'', []), (''b'', ''Beta'', []), (''b'', ''Again'', [])] MULTICHOICE))
   \<and> length (m_choices
      (GncOptionMultichoiceValue_ctor ''s'' ''n'' ''k'' ''d''
         [(''a'', ''Alpha'', []), (''b'', ''Beta'', []), (''b'', ''Again'', [])] MULTICHOICE)) < 2 ^ 64
   \<and> multichoice_m_value (state_of (GncOptionMultichoiceValue_set_value ''b''
        (GncOptionMultichoiceValue_ctor ''s'' ''n'' ''k'' ''d''
           [(''a'', ''Alpha'', []), (''b'', ''Beta'', []), (''b'', ''Again'', [])] MULTICHOICE)))
       = 1
   \<and> GncOptionMultichoiceValue_get_value (state_of (GncOptionMultichoiceValue_set_value ''b''
        (GncOptionMultichoiceValue_ctor ''s'' ''n'' ''k'' ''d''
           [(''a'', ''Alpha'', []), (''b'', ''Beta'', []), (''b'', ''Again'', [])] MULTICHOICE)))
       = Inr ''b''"
proof -
  let ?c = "GncOptionMultichoiceValue_ctor ''s'' ''n'' ''k'' ''d''
         [(''a'', ''Alpha'', []), (''b'', ''Beta'', []), (''b'', ''Again'', [])] MULTICHOICE"
  have present: "''b'' \<in> fst ` set (m_choices ?c)"
    by (simp add: GncOptionMultichoiceValue_ctor_def)
  have small: "length (m_choices ?c) < 2 ^ 64"
    by (simp add: GncOptionMultichoiceValue_ctor_def)
  have at_one: "multichoice_m_value (state_of (GncOptionMultichoiceValue_set_value ''b'' ?c)) = 1"
    by (simp add: GncOptionMultichoiceValue_ctor_def GncOptionMultichoiceValue_set_value_def
        find_key_def size_t_max_def)
  from multichoice_set_value_first_match [OF present small]
  have "GncOptionMultichoiceValue_get_value (state_of (GncOptionMultichoiceValue_set_value ''b'' ?c))
         = Inr ''b''"
    by blast
  with present small at_one show ?thesis
    by blast
qed

section \<open>Reading a cell\<close>

lemma multichoice_step_keeps_index:
  assumes "m_choices c = choices" and "multichoice_m_default_value c = 0"
    and "choices \<noteq> [] \<longrightarrow> unat (multichoice_m_value c) < length choices"
  shows "m_choices (multichoice_step c call) = choices
     \<and> multichoice_m_default_value (multichoice_step c call) = 0
     \<and> (choices \<noteq> [] \<longrightarrow> unat (multichoice_m_value (multichoice_step c call)) < length choices)"
proof (cases call)
  case (Call_set_value key)
  let ?i = "find_if (\<lambda>choice. fst choice = key) (m_choices c)"
  have "?i \<noteq> length (m_choices c) \<Longrightarrow> unat (of_nat ?i :: size_t) < length choices"
  proof -
    assume "?i \<noteq> length (m_choices c)"
    with find_if_le [of "\<lambda>choice. fst choice = key" "m_choices c"]
    have "?i < length choices" using assms(1) by simp
    with unat_of_nat_le [of ?i] show ?thesis by simp
  qed
  with assms Call_set_value show ?thesis
    by (auto simp add: GncOptionMultichoiceValue_set_value_def find_key_def Let_def)
next
  case (Call_ui c')
  with assms show ?thesis by simp
qed

lemma multichoice_after_keeps_index:
  assumes "m_choices c = choices" and "multichoice_m_default_value c = 0"
    and "choices \<noteq> [] \<longrightarrow> unat (multichoice_m_value c) < length choices"
  shows "m_choices (GncOptionMultichoiceValue_after c calls) = choices
     \<and> multichoice_m_default_value (GncOptionMultichoiceValue_after c calls) = 0
     \<and> (choices \<noteq> [] \<longrightarrow>
          unat (multichoice_m_value (GncOptionMultichoiceValue_after c calls)) < length choices)"
  using assms unfolding GncOptionMultichoiceValue_after_def
proof (induction calls arbitrary: c)
  case Nil
  then show ?case by simp
next
  case (Cons call calls)
  from multichoice_step_keeps_index [OF Cons.prems, of call]
  show ?case using Cons.IH [of "multichoice_step c call"] by simp
qed

lemma multichoice_ctor_after:
  "m_choices (GncOptionMultichoiceValue_after
       (GncOptionMultichoiceValue_ctor section name key doc_string choices ui_type) calls) = choices
   \<and> multichoice_m_default_value (GncOptionMultichoiceValue_after
       (GncOptionMultichoiceValue_ctor section name key doc_string choices ui_type) calls) = 0
   \<and> (choices \<noteq> [] \<longrightarrow>
        unat (multichoice_m_value (GncOptionMultichoiceValue_after
          (GncOptionMultichoiceValue_ctor section name key doc_string choices ui_type) calls))
        < length choices)"
  by (rule multichoice_after_keeps_index) (simp_all add: GncOptionMultichoiceValue_ctor_def)

lemma date_after_absolute:
  "m_type c = ABSOLUTE \<Longrightarrow>
   m_type (GncOptionDateValue_after c ts) = ABSOLUTE
   \<and> m_date (GncOptionDateValue_after c ts) = last (m_date c # ts)"
  unfolding GncOptionDateValue_after_def
proof (induction ts arbitrary: c)
  case Nil
  then show ?case by simp
next
  case (Cons t ts)
  have "m_type (GncOptionDateValue_set_value t c) = ABSOLUTE"
    and "m_date (GncOptionDateValue_set_value t c) = t"
    by (simp_all add: GncOptionDateValue_set_value_def)
  with Cons.IH [of "GncOptionDateValue_set_value t c"] show ?case
    by simp
qed

text \<open>
  C4, as the code has it. \<^verbatim>\<open>get_value()\<close> and \<^verbatim>\<open>get_default_value()\<close> are \<^verbatim>\<open>const\<close> member
  functions of every cell: they return a result and no new state. On a plain, a validated
  and a range cell they return the stored members and cannot fail. On a date cell in any
  state \<^verbatim>\<open>get_default_value()\<close> returns the current time and \<^verbatim>\<open>get_value()\<close> the stored
  timestamp or the boundary of the stored period, and neither can fail; on a date cell
  that was constructed and then changed by \<^verbatim>\<open>set_value(time64)\<close> calls \<^verbatim>\<open>get_value()\<close> is the
  last time set, or the time of construction when none was. On a multichoice cell, in every
  state it reaches from its construction by \<^verbatim>\<open>set_value\<close> and UI calls, the two return the key
  of the selected entry and of the first entry when the choice list is not empty (the stored
  index then addresses an entry), and both throw \<^verbatim>\<open>std::out_of_range\<close> (\<open>OutOfRange\<close>, from
  \<^verbatim>\<open>std::vector::at\<close>) when the choice list is empty: the one failure there is.
\<close>

theorem get_value_fails_only_without_choices:
  fixes p :: "'a GncOptionValue" and w :: "'b GncOptionValidatedValue"
    and r :: "'c GncOptionRangeValue" and date :: GncOptionDateValue
    and sect nm k doc choices ui_type calls
  defines "c \<equiv> GncOptionMultichoiceValue_after
      (GncOptionMultichoiceValue_ctor sect nm k doc choices ui_type) calls"
  shows "GncOptionValue_get_value p = plain_m_value p
     \<and> GncOptionValue_get_default_value p = plain_m_default_value p
     \<and> GncOptionValidatedValue_get_value w = validated_m_value w
     \<and> GncOptionValidatedValue_get_default_value w = validated_m_default_value w
     \<and> GncOptionRangeValue_get_value r = range_m_value r
     \<and> GncOptionRangeValue_get_default_value r = range_m_default_value r
     \<and> GncOptionDateValue_get_default_value now date = now
     \<and> GncOptionDateValue_get_value boundary now date
         = (if m_type date = ABSOLUTE then m_date date else boundary (m_type date) (m_period date) now)
     \<and> GncOptionDateValue_get_value boundary now
           (GncOptionDateValue_after (GncOptionDateValue_ctor built sect nm k doc) ts)
         = last (built # ts)
     \<and> (if choices = []
         then GncOptionMultichoiceValue_get_value c = Inl out_of_range
            \<and> GncOptionMultichoiceValue_get_default_value c = Inl out_of_range
         else unat (multichoice_m_value c) < length choices
            \<and> GncOptionMultichoiceValue_get_value c = Inr (fst (choices ! unat (multichoice_m_value c)))
            \<and> GncOptionMultichoiceValue_get_default_value c = Inr (fst (choices ! 0)))"
proof -
  have inv: "m_choices c = choices" "multichoice_m_default_value c = 0"
    "choices \<noteq> [] \<longrightarrow> unat (multichoice_m_value c) < length choices"
    using multichoice_ctor_after [of sect nm k doc choices ui_type calls]
    by (simp_all add: c_def)
  have multi: "if choices = []
         then GncOptionMultichoiceValue_get_value c = Inl out_of_range
            \<and> GncOptionMultichoiceValue_get_default_value c = Inl out_of_range
         else unat (multichoice_m_value c) < length choices
            \<and> GncOptionMultichoiceValue_get_value c = Inr (fst (choices ! unat (multichoice_m_value c)))
            \<and> GncOptionMultichoiceValue_get_default_value c = Inr (fst (choices ! 0))"
    using inv
    by (simp add: GncOptionMultichoiceValue_get_value_def
        GncOptionMultichoiceValue_get_default_value_def vector_at_def)
  have "m_type (GncOptionDateValue_ctor built sect nm k doc) = ABSOLUTE"
    and "m_date (GncOptionDateValue_ctor built sect nm k doc) = built"
    by (simp_all add: GncOptionDateValue_ctor_def)
  with date_after_absolute [of "GncOptionDateValue_ctor built sect nm k doc" ts]
  have dated: "GncOptionDateValue_get_value boundary now
           (GncOptionDateValue_after (GncOptionDateValue_ctor built sect nm k doc) ts)
         = last (built # ts)"
    by (simp add: GncOptionDateValue_get_value_def)
  have reads: "GncOptionDateValue_get_default_value now date = now"
    "GncOptionDateValue_get_value boundary now date
         = (if m_type date = ABSOLUTE then m_date date else boundary (m_type date) (m_period date) now)"
    by (simp_all add: GncOptionDateValue_get_default_value_def GncOptionDateValue_get_value_def)
  from multi dated reads show ?thesis
    by (simp add: GncOptionValue_get_value_def GncOptionValue_get_default_value_def
        GncOptionValidatedValue_get_value_def GncOptionValidatedValue_get_default_value_def
        GncOptionRangeValue_get_value_def GncOptionRangeValue_get_default_value_def)
qed

theorem multichoice_get_value_counterexample:
  "GncOptionMultichoiceValue_get_value
     (GncOptionMultichoiceValue_ctor ''s'' ''n'' ''k'' ''d'' [] MULTICHOICE) = Inl out_of_range
   \<and> GncOptionMultichoiceValue_get_default_value
     (GncOptionMultichoiceValue_ctor ''s'' ''n'' ''k'' ''d'' [] MULTICHOICE) = Inl out_of_range"
  by (simp add: GncOptionMultichoiceValue_get_value_def GncOptionMultichoiceValue_get_default_value_def
      GncOptionMultichoiceValue_ctor_def vector_at_def)

theorem get_value_fails_only_without_choices_witness:
  "GncOptionMultichoiceValue_get_value (GncOptionMultichoiceValue_after
       (GncOptionMultichoiceValue_ctor ''s'' ''n'' ''k'' ''d'' [] MULTICHOICE)
       [Call_set_value ''a'', Call_ui Call_make_internal]) = Inl out_of_range
   \<and> GncOptionMultichoiceValue_get_default_value (GncOptionMultichoiceValue_after
       (GncOptionMultichoiceValue_ctor ''s'' ''n'' ''k'' ''d'' [] MULTICHOICE)
       [Call_set_value ''a'', Call_ui Call_make_internal]) = Inl out_of_range
   \<and> GncOptionMultichoiceValue_get_value (GncOptionMultichoiceValue_after
       (GncOptionMultichoiceValue_ctor ''s'' ''n'' ''k'' ''d''
          [(''a'', ''Alpha'', []), (''b'', ''Beta'', [])] MULTICHOICE)
       [Call_set_value ''b'', Call_set_value ''c'']) = Inr ''b''
   \<and> GncOptionMultichoiceValue_get_default_value (GncOptionMultichoiceValue_after
       (GncOptionMultichoiceValue_ctor ''s'' ''n'' ''k'' ''d''
          [(''a'', ''Alpha'', []), (''b'', ''Beta'', [])] MULTICHOICE)
       [Call_set_value ''b'', Call_set_value ''c'']) = Inr ''a''
   \<and> GncOptionDateValue_get_default_value 200 (GncOptionDateValue_ctor 100 ''s'' ''n'' ''k'' ''d'') = 200
   \<and> GncOptionDateValue_get_value (\<lambda>ty period t. t) 200 (GncOptionDateValue_ctor 100 ''s'' ''n'' ''k'' ''d'')
       = 100
   \<and> GncOptionDateValue_get_value (\<lambda>ty period t. t) 200
        (GncOptionDateValue_after (GncOptionDateValue_ctor 100 ''s'' ''n'' ''k'' ''d'') [150, 170])
       = 170
   \<and> GncOptionDateValue_get_value (\<lambda>ty period t. t) 200
        ((GncOptionDateValue_ctor 100 ''s'' ''n'' ''k'' ''d'')\<lparr>m_type := STARTING, m_period := THIS_MONTH\<rparr>)
       = 200"
proof -
  have idx: "multichoice_m_value (GncOptionMultichoiceValue_after
       (GncOptionMultichoiceValue_ctor ''s'' ''n'' ''k'' ''d''
          [(''a'', ''Alpha'', []), (''b'', ''Beta'', [])] MULTICHOICE)
       [Call_set_value ''b'', Call_set_value ''c'']) = 1"
    by (simp add: GncOptionMultichoiceValue_after_def GncOptionMultichoiceValue_ctor_def
        GncOptionMultichoiceValue_set_value_def find_key_def size_t_max_def)
  let ?p = "GncOptionValue_ctor ''s'' ''n'' ''k'' ''d'' True BOOLEAN"
  let ?w = "\<lparr>validated_classifier =
               \<lparr>m_section = ''s'', m_name = ''n'', m_sort_tag = ''k'', m_doc_string = ''d''\<rparr>,
             validated_ui = OptionUIItem_ctor INTERNAL, validated_m_value = nullptr,
             validated_m_default_value = nullptr, validated_m_validator = (\<lambda>_. True),
             validated_m_validation_data = None\<rparr>"
  let ?r = "GncOptionRangeValue_ctor ''s'' ''n'' ''k'' ''d'' (5::int) 0 10 1"
  let ?fresh = "GncOptionDateValue_ctor 100 ''s'' ''n'' ''k'' ''d''"
  have fresh: "m_type ?fresh = ABSOLUTE" "m_date ?fresh = 100"
    by (simp_all add: GncOptionDateValue_ctor_def)
  show ?thesis
    using get_value_fails_only_without_choices
            [where p = ?p and w = ?w and r = ?r and date = ?fresh
               and now = 200 and boundary = "\<lambda>ty period t. t" and built = 100 and ts = "[150, 170]"
               and sect = "''s''" and nm = "''n''" and k = "''k''" and doc = "''d''"
               and choices = "[]" and ui_type = MULTICHOICE
               and calls = "[Call_set_value ''a'', Call_ui Call_make_internal]"]
          get_value_fails_only_without_choices
            [where p = ?p and w = ?w and r = ?r
               and date = "?fresh\<lparr>m_type := STARTING, m_period := THIS_MONTH\<rparr>"
               and now = 200 and boundary = "\<lambda>ty period t. t" and built = 100 and ts = "[]"
               and sect = "''s''" and nm = "''n''" and k = "''k''" and doc = "''d''"
               and choices = "[(''a'', ''Alpha'', []), (''b'', ''Beta'', [])]" and ui_type = MULTICHOICE
               and calls = "[Call_set_value ''b'', Call_set_value ''c'']"]
    by (simp add: idx fresh)
qed

section \<open>The default of a cell\<close>

lemma plain_after_default:
  "plain_m_default_value (GncOptionValue_after c vs) = plain_m_default_value c"
  unfolding GncOptionValue_after_def
  by (induction vs arbitrary: c) (simp_all add: GncOptionValue_set_value_def)

lemma validated_after_default:
  "validated_m_default_value (GncOptionValidatedValue_after c vs) = validated_m_default_value c"
  unfolding GncOptionValidatedValue_after_def
  by (induction vs arbitrary: c) (simp_all add: GncOptionValidatedValue_set_value_def)

lemma range_after_default:
  "range_m_default_value (GncOptionRangeValue_after c vs) = range_m_default_value c"
  unfolding GncOptionRangeValue_after_def
  by (induction vs arbitrary: c) (simp_all add: GncOptionRangeValue_set_value_def)

text \<open>
  C3, as the code has it. For a plain, a validated, a range and a multichoice cell the default
  is fixed at construction: after any sequence of \<^verbatim>\<open>set_value\<close> calls \<^verbatim>\<open>get_default_value()\<close>
  returns what it returned on the freshly constructed cell (the constructor's value; for a
  range cell the value or \<open>min\<close>; for a multichoice cell the key of the first entry, or the
  same \<^verbatim>\<open>std::out_of_range\<close> when there is none). A date cell stores no default:
  its \<^verbatim>\<open>get_default_value()\<close> returns the current time of each call.
\<close>

theorem default_value_fixed_but_for_dates:
  fixes v :: 'a and w :: 'b and validator :: "'b \<Rightarrow> bool" and x :: "'c::ord"
  shows "GncOptionValue_get_default_value
        (GncOptionValue_after (GncOptionValue_ctor s1 n1 k1 d1 v t1) vs) = v
     \<and> (\<forall>c. GncOptionValidatedValue_ctor s2 n2 k2 d2 w validator t2 = Inr c \<longrightarrow>
          GncOptionValidatedValue_get_default_value (GncOptionValidatedValue_after c ws) = w)
     \<and> GncOptionRangeValue_get_default_value
        (GncOptionRangeValue_after (GncOptionRangeValue_ctor s3 n3 k3 d3 x minv maxv step) xs)
        = (if minv \<le> x \<and> x \<le> maxv then x else minv)
     \<and> GncOptionMultichoiceValue_get_default_value
        (GncOptionMultichoiceValue_after (GncOptionMultichoiceValue_ctor s4 n4 k4 d4 choices t4) calls)
        = GncOptionMultichoiceValue_get_default_value (GncOptionMultichoiceValue_ctor s4 n4 k4 d4 choices t4)
     \<and> GncOptionDateValue_get_default_value now date = now"
proof (intro conjI allI impI)
  show "GncOptionValue_get_default_value
        (GncOptionValue_after (GncOptionValue_ctor s1 n1 k1 d1 v t1) vs) = v"
    by (simp add: GncOptionValue_get_default_value_def plain_after_default GncOptionValue_ctor_def)
next
  fix c
  assume "GncOptionValidatedValue_ctor s2 n2 k2 d2 w validator t2 = Inr c"
  from validated_ctor_Inr [OF this]
  show "GncOptionValidatedValue_get_default_value (GncOptionValidatedValue_after c ws) = w"
    by (simp add: GncOptionValidatedValue_get_default_value_def validated_after_default)
next
  show "GncOptionRangeValue_get_default_value
        (GncOptionRangeValue_after (GncOptionRangeValue_ctor s3 n3 k3 d3 x minv maxv step) xs)
        = (if minv \<le> x \<and> x \<le> maxv then x else minv)"
    by (simp add: GncOptionRangeValue_get_default_value_def range_after_default
        GncOptionRangeValue_ctor_def)
next
  from multichoice_ctor_after [of s4 n4 k4 d4 choices t4 calls]
  show "GncOptionMultichoiceValue_get_default_value
        (GncOptionMultichoiceValue_after (GncOptionMultichoiceValue_ctor s4 n4 k4 d4 choices t4) calls)
        = GncOptionMultichoiceValue_get_default_value (GncOptionMultichoiceValue_ctor s4 n4 k4 d4 choices t4)"
    by (simp add: GncOptionMultichoiceValue_get_default_value_def GncOptionMultichoiceValue_ctor_def)
next
  show "GncOptionDateValue_get_default_value now date = now"
    by (simp add: GncOptionDateValue_get_default_value_def)
qed

theorem date_default_value_counterexample:
  "GncOptionDateValue_get_default_value 200 (GncOptionDateValue_ctor 100 ''s'' ''n'' ''k'' ''d'')
     \<noteq> GncOptionDateValue_get_default_value 100 (GncOptionDateValue_ctor 100 ''s'' ''n'' ''k'' ''d'')
   \<and> GncOptionDateValue_get_default_value 200 (GncOptionDateValue_ctor 100 ''s'' ''n'' ''k'' ''d'')
     \<noteq> m_date (GncOptionDateValue_ctor 100 ''s'' ''n'' ''k'' ''d'')"
  by (simp add: GncOptionDateValue_get_default_value_def GncOptionDateValue_ctor_def)

theorem default_value_fixed_but_for_dates_witness:
  "GncOptionValidatedValue_ctor ''s'' ''n'' ''k'' ''d'' (1::int) (\<lambda>x. 0 < x) INTERNAL
     = Inr \<lparr>validated_classifier =
               \<lparr>m_section = ''s'', m_name = ''n'', m_sort_tag = ''k'', m_doc_string = ''d''\<rparr>,
             validated_ui = OptionUIItem_ctor INTERNAL,
             validated_m_value = 1::int,
             validated_m_default_value = 1,
             validated_m_validator = (\<lambda>x::int. 0 < x),
             validated_m_validation_data = None\<rparr>
   \<and> GncOptionValidatedValue_get_default_value
        (GncOptionValidatedValue_after
           \<lparr>validated_classifier =
              \<lparr>m_section = ''s'', m_name = ''n'', m_sort_tag = ''k'', m_doc_string = ''d''\<rparr>,
            validated_ui = OptionUIItem_ctor INTERNAL,
            validated_m_value = 1::int,
            validated_m_default_value = 1,
            validated_m_validator = (\<lambda>x::int. 0 < x),
            validated_m_validation_data = None\<rparr>
           [5, - 3, 2])
       = 1
   \<and> GncOptionValue_get_default_value
        (GncOptionValue_after (GncOptionValue_ctor ''s'' ''n'' ''k'' ''d'' True BOOLEAN) [False, True, False])
       = True
   \<and> GncOptionRangeValue_get_default_value
        (GncOptionRangeValue_after (GncOptionRangeValue_ctor ''s'' ''n'' ''k'' ''d'' (15::int) 0 10 1) [7, 15])
       = 0
   \<and> GncOptionMultichoiceValue_get_default_value
        (GncOptionMultichoiceValue_after
           (GncOptionMultichoiceValue_ctor ''s'' ''n'' ''k'' ''d''
              [(''a'', ''Alpha'', []), (''b'', ''Beta'', [])] MULTICHOICE)
           [Call_set_value ''b''])
       = Inr ''a''
   \<and> GncOptionDateValue_get_default_value 200 (GncOptionDateValue_ctor 100 ''s'' ''n'' ''k'' ''d'') = 200"
proof -
  let ?c = "\<lparr>validated_classifier =
              \<lparr>m_section = ''s'', m_name = ''n'', m_sort_tag = ''k'', m_doc_string = ''d''\<rparr>,
            validated_ui = OptionUIItem_ctor INTERNAL,
            validated_m_value = 1::int,
            validated_m_default_value = 1,
            validated_m_validator = (\<lambda>x::int. 0 < x),
            validated_m_validation_data = None\<rparr>"
  have built: "GncOptionValidatedValue_ctor ''s'' ''n'' ''k'' ''d'' (1::int) (\<lambda>x. 0 < x) INTERNAL = Inr ?c"
    by (simp add: GncOptionValidatedValue_ctor_def GncOptionValidatedValue_validate_def)
  have first: "GncOptionMultichoiceValue_get_default_value
        (GncOptionMultichoiceValue_ctor ''s'' ''n'' ''k'' ''d''
              [(''a'', ''Alpha'', []), (''b'', ''Beta'', [])] MULTICHOICE) = Inr ''a''"
    by (simp add: GncOptionMultichoiceValue_get_default_value_def GncOptionMultichoiceValue_ctor_def
        vector_at_def)
  from default_value_fixed_but_for_dates
         [of "''s''" "''n''" "''k''" "''d''" True BOOLEAN "[False, True, False]"
             "''s''" "''n''" "''k''" "''d''" "1::int" "\<lambda>x. 0 < x" INTERNAL "[5, - 3, 2]"
             "''s''" "''n''" "''k''" "''d''" "15::int" 0 10 1 "[7, 15]"
             "''s''" "''n''" "''k''" "''d''" "[(''a'', ''Alpha'', []), (''b'', ''Beta'', [])]" MULTICHOICE
             "[Call_set_value ''b'']" 200 "GncOptionDateValue_ctor 100 ''s'' ''n'' ''k'' ''d''"]
  show ?thesis
    using built first by simp
qed

end
